theory Spec2Isabelle
  imports Complex_Main
begin

section \<open>The checkout wizard of the forms tutorial\<close>

text \<open>
  A shallow embedding of \<^verbatim>\<open>CheckoutFormComponent\<close> (the multi-step checkout form).
  The component is a class with mutable fields; every method becomes a function from
  the component's state to its new state. The form primitives it is built on
  (controls, groups, validators) belong to the UI framework; the part of their
  behaviour that the component relies on is modelled in the first three subsections.

  Conventions.
  \<^item> JavaScript numbers are modelled as exact rationals; the binary rounding error of
    a double is not modelled. On the sessions reachable from the initial one the
    prices, quantities and the tax rate are the constants of the class, every figure
    that is printed lies well away from a rounding boundary, and the digits of the
    model are those of the code. The properties of the totals are stated for these
    sessions only.
  \<^item> JavaScript strings are modelled as \<^typ>\<open>string\<close>, one \<^typ>\<open>char\<close> per code unit.
  \<^item> Display labels (\<^verbatim>\<open>name\<close> of a cart item, of a shipping method) are read by the
    template only and are left out.
\<close>

subsection \<open>Values\<close>

record cart_item =
  item_id :: int
  price :: rat
  quantity :: rat

record shipping_method =
  sm_id :: string
  sm_price :: rat

text \<open>The values a control of this component can hold.\<close>

datatype jsval = JNull | JBool bool | JStr string | JItems "cart_item list"

subsection \<open>Validators of the framework\<close>

text \<open>The regular-expression literals that occur in \<^verbatim>\<open>initializeForms\<close>.\<close>

datatype regexp =
    PhoneRe             \<comment> \<open>\<^verbatim>\<open>/^\+?[0-9\s\-()]+$/\<close>\<close>
  | DigitsRe nat nat    \<comment> \<open>\<^verbatim>\<open>/^[0-9]{m,n}$/\<close>; \<^verbatim>\<open>/^[0-9]{n}$/\<close> is \<open>DigitsRe n n\<close>\<close>
  | ExpiryRe            \<comment> \<open>\<^verbatim>\<open>/^(0[1-9]|1[0-2])\/[0-9]{2}$/\<close>\<close>

datatype validator =
    Required | RequiredTrue | MinLength nat | Email | Pattern regexp

definition is_digit :: "char \<Rightarrow> bool" where
  "is_digit c = (c \<in> set ''0123456789'')"

definition is_space :: "char \<Rightarrow> bool" where
  \<comment> \<open>\<^verbatim>\<open>\s\<close>: space, tab, line feed, vertical tab, form feed, carriage return, no-break space\<close>
  "is_space c = (c \<in> set [CHR 0x20, CHR 0x09, CHR 0x0A, CHR 0x0B, CHR 0x0C, CHR 0x0D, CHR 0xA0])"

definition phone_char :: "char \<Rightarrow> bool" where
  \<comment> \<open>the class \<^verbatim>\<open>[0-9\s\-()]\<close>\<close>
  "phone_char c = (is_digit c \<or> is_space c \<or> c \<in> set ''-()'')"

fun regexp_test :: "regexp \<Rightarrow> string \<Rightarrow> bool" where
  "regexp_test PhoneRe s =
     (case s of
        [] \<Rightarrow> False
      | c # cs \<Rightarrow>
          if c = CHR ''+'' then cs \<noteq> [] \<and> list_all phone_char cs
          else list_all phone_char (c # cs))"
| "regexp_test (DigitsRe m n) s = (m \<le> length s \<and> length s \<le> n \<and> list_all is_digit s)"
| "regexp_test ExpiryRe s =
     (case s of
        [a, b, c, d, e] \<Rightarrow>
          ((a = CHR ''0'' \<and> b \<in> set ''123456789'') \<or> (a = CHR ''1'' \<and> b \<in> set ''012''))
          \<and> c = CHR ''/'' \<and> is_digit d \<and> is_digit e
      | _ \<Rightarrow> False)"

text \<open>
  \<^verbatim>\<open>Validators.email\<close> tests the framework's e-mail expression: a local part of
  dot-separated non-empty atoms, at most 64 characters long, an \<^verbatim>\<open>@\<close>, and a domain of
  dot-separated labels of 1 to 63 letters, digits and dashes that neither start nor
  end with a dash; at most 254 characters in all.
\<close>

fun split_on :: "char \<Rightarrow> string \<Rightarrow> string list" where
  "split_on d [] = [[]]"
| "split_on d (c # cs) =
     (if c = d then [] # split_on d cs
      else (case split_on d cs of [] \<Rightarrow> [[c]] | p # ps \<Rightarrow> (c # p) # ps))"

definition is_alnum :: "char \<Rightarrow> bool" where
  "is_alnum c =
     (c \<in> set ''abcdefghijklmnopqrstuvwxyz'' \<or> c \<in> set ''ABCDEFGHIJKLMNOPQRSTUVWXYZ'' \<or> is_digit c)"

definition is_atext :: "char \<Rightarrow> bool" where
  \<comment> \<open>the class \<^verbatim>\<open>[a-zA-Z0-9!#$%&'*+/=?^_`{|}~-]\<close>\<close>
  "is_atext c =
     (is_alnum c \<or> c \<in> set ''!#$%&*+/=?^_{|}~-'' \<or> c = CHR 0x27 \<or> c = CHR 0x60)"

definition atom_ok :: "string \<Rightarrow> bool" where
  "atom_ok a = (a \<noteq> [] \<and> list_all is_atext a)"

definition label_ok :: "string \<Rightarrow> bool" where
  "label_ok l =
     (l \<noteq> [] \<and> length l \<le> 63 \<and> is_alnum (hd l) \<and> is_alnum (last l)
      \<and> list_all (\<lambda>c. is_alnum c \<or> c = CHR ''-'') l)"

definition email_test :: "string \<Rightarrow> bool" where
  "email_test s =
     (s \<noteq> [] \<and> length s \<le> 254 \<and>
      (case split_on CHR ''@'' s of
         [l, d] \<Rightarrow>
           length l \<le> 64 \<and> list_all atom_ok (split_on CHR ''.'' l)
           \<and> list_all label_ok (split_on CHR ''.'' d)
       | _ \<Rightarrow> False))"

text \<open>
  \<^verbatim>\<open>isEmptyInputValue\<close>: \<^verbatim>\<open>null\<close>, the empty string and the empty array are empty; a
  boolean never is.
\<close>

fun is_empty_input :: "jsval \<Rightarrow> bool" where
  "is_empty_input JNull = True"
| "is_empty_input (JBool b) = False"
| "is_empty_input (JStr s) = (s = [])"
| "is_empty_input (JItems xs) = (xs = [])"

text \<open>The \<^verbatim>\<open>length\<close> property, where the value has one.\<close>

fun js_length :: "jsval \<Rightarrow> nat option" where
  "js_length JNull = None"
| "js_length (JBool b) = None"
| "js_length (JStr s) = Some (length s)"
| "js_length (JItems xs) = Some (length xs)"

text \<open>
  \<^verbatim>\<open>RegExp.test\<close> converts its argument to a string: a boolean to \<^verbatim>\<open>true\<close> or
  \<^verbatim>\<open>false\<close>, an array of objects to \<^verbatim>\<open>[object Object]\<close> joined by commas.
\<close>

fun join_commas :: "string list \<Rightarrow> string" where
  "join_commas [] = []"
| "join_commas [x] = x"
| "join_commas (x # y # ys) = x @ '','' @ join_commas (y # ys)"

fun js_to_string :: "jsval \<Rightarrow> string" where
  "js_to_string JNull = ''null''"
| "js_to_string (JBool b) = (if b then ''true'' else ''false'')"
| "js_to_string (JStr s) = s"
| "js_to_string (JItems xs) = join_commas (map (\<lambda>_. ''[object Object]'') xs)"

text \<open>A validator passes (\<open>True\<close>) when the framework's validator function returns no error.\<close>

fun validator_ok :: "validator \<Rightarrow> jsval \<Rightarrow> bool" where
  "validator_ok Required v = (\<not> is_empty_input v)"
| "validator_ok RequiredTrue v = (v = JBool True)"
| "validator_ok (MinLength n) v =
     (case js_length v of None \<Rightarrow> True | Some l \<Rightarrow> l = 0 \<or> n \<le> l)"
| "validator_ok Email v = (is_empty_input v \<or> email_test (js_to_string v))"
| "validator_ok (Pattern r) v = (is_empty_input v \<or> regexp_test r (js_to_string v))"

subsection \<open>Controls and form groups\<close>

record control =
  c_value :: jsval
  c_touched :: bool
  c_validators :: "validator list"

text \<open>
  A form group holds its controls by name; the association list keeps the order of
  \<^verbatim>\<open>Object.keys\<close>. The group has a touched flag of its own, which a control raises
  when it is marked as touched.
\<close>

record form_group =
  controls :: "(string \<times> control) list"
  g_touched :: bool

definition fb_control :: "jsval \<Rightarrow> validator list \<Rightarrow> control" where
  \<comment> \<open>an entry \<^verbatim>\<open>[value, validators]\<close> of \<^verbatim>\<open>FormBuilder.group\<close>\<close>
  "fb_control v vs = \<lparr>c_value = v, c_touched = False, c_validators = vs\<rparr>"

definition fb_group :: "(string \<times> control) list \<Rightarrow> form_group" where
  "fb_group cs = \<lparr>controls = cs, g_touched = False\<rparr>"

definition get_control :: "form_group \<Rightarrow> string \<Rightarrow> control option" where
  \<comment> \<open>\<^verbatim>\<open>form.get(key)\<close>: \<open>None\<close> is \<^verbatim>\<open>null\<close>\<close>
  "get_control f k = map_of (controls f) k"

definition get_value :: "form_group \<Rightarrow> string \<Rightarrow> jsval option" where
  \<comment> \<open>\<^verbatim>\<open>form.get(key)?.value\<close>: \<open>None\<close> is \<^verbatim>\<open>undefined\<close>\<close>
  "get_value f k = map_option c_value (get_control f k)"

definition group_value :: "form_group \<Rightarrow> (string \<times> jsval) list" where
  \<comment> \<open>\<^verbatim>\<open>form.value\<close>\<close>
  "group_value f = map (\<lambda>(k, c). (k, c_value c)) (controls f)"

definition control_valid :: "control \<Rightarrow> bool" where
  "control_valid c = list_all (\<lambda>v. validator_ok v (c_value c)) (c_validators c)"

definition group_valid :: "form_group \<Rightarrow> bool" where
  \<comment> \<open>\<^verbatim>\<open>form.valid\<close>: no control of the group is invalid (none is ever disabled here)\<close>
  "group_valid f = list_all (\<lambda>(k, c). control_valid c) (controls f)"

fun update_control :: "string \<Rightarrow> (control \<Rightarrow> control) \<Rightarrow> (string \<times> control) list
    \<Rightarrow> (string \<times> control) list" where
  "update_control k g [] = []"
| "update_control k g ((k', c) # cs) =
     (if k' = k then (k', g c) # cs else (k', c) # update_control k g cs)"

definition markAsTouched :: "string \<Rightarrow> form_group \<Rightarrow> form_group" where
  \<comment> \<open>\<^verbatim>\<open>form.get(key)?.markAsTouched()\<close>: the control's flag, then its parent's\<close>
  "markAsTouched k f =
     (case get_control f k of
        None \<Rightarrow> f
      | Some c \<Rightarrow>
          f\<lparr>controls := update_control k (\<lambda>c. c\<lparr>c_touched := True\<rparr>) (controls f),
            g_touched := True\<rparr>)"

definition setValue :: "string \<Rightarrow> jsval \<Rightarrow> form_group \<Rightarrow> form_group" where
  \<comment> \<open>\<^verbatim>\<open>form.get(key)?.setValue(v)\<close>, what an edit of the field does\<close>
  "setValue k v f = f\<lparr>controls := update_control k (\<lambda>c. c\<lparr>c_value := v\<rparr>) (controls f)\<rparr>"

subsection \<open>The component's state\<close>

text \<open>
  What \<^verbatim>\<open>toFixed(2)\<close> returns: below \<open>10\<^sup>2\<^sup>1\<close> in magnitude a decimal string with two
  fraction digits, from there on the exponent notation of the number, whose digits
  are not modelled.
\<close>

datatype printed = Fixed string | Exponent rat

record totals =
  t_subtotal :: printed
  t_shipping :: printed
  t_tax :: printed
  t_total :: printed

record payment_info =
  p_method :: "jsval option"
  p_cardName :: "jsval option"

record order =
  o_cart :: "(string \<times> jsval) list"
  o_shipping :: "(string \<times> jsval) list"
  o_payment :: payment_info
  o_totals :: totals
  o_orderNumber :: string
  o_date :: string

text \<open>
  The fields of the class. \<open>orderData = None\<close> is \<^verbatim>\<open>orderData = null\<close>. The four forms
  are objects that the methods mutate in place; a \<open>form_ref\<close> names one of them, so
  that \<^verbatim>\<open>getCurrentForm\<close> can return a reference and \<^verbatim>\<open>markFormTouched\<close> can write
  through it.
\<close>

record checkout =
  currentStep :: int
  totalSteps :: int
  cartForm :: form_group
  shippingForm :: form_group
  paymentForm :: form_group
  confirmationForm :: form_group
  cartItems :: "cart_item list"
  shippingMethods :: "shipping_method list"
  taxRate :: rat
  orderData :: "order option"

datatype form_ref = CartRef | ShippingRef | PaymentRef | ConfirmationRef

fun form_of :: "form_ref \<Rightarrow> checkout \<Rightarrow> form_group" where
  "form_of CartRef s = cartForm s"
| "form_of ShippingRef s = shippingForm s"
| "form_of PaymentRef s = paymentForm s"
| "form_of ConfirmationRef s = confirmationForm s"

fun update_form :: "form_ref \<Rightarrow> (form_group \<Rightarrow> form_group) \<Rightarrow> checkout \<Rightarrow> checkout" where
  "update_form CartRef g s = s\<lparr>cartForm := g (cartForm s)\<rparr>"
| "update_form ShippingRef g s = s\<lparr>shippingForm := g (shippingForm s)\<rparr>"
| "update_form PaymentRef g s = s\<lparr>paymentForm := g (paymentForm s)\<rparr>"
| "update_form ConfirmationRef g s = s\<lparr>confirmationForm := g (confirmationForm s)\<rparr>"

subsection \<open>Field initialisers and \<^verbatim>\<open>initializeForms\<close>\<close>

definition initial_cartItems :: "cart_item list" where
  "initial_cartItems =
     [\<lparr>item_id = 1, price = 9999 / 100, quantity = 1\<rparr>,
      \<lparr>item_id = 2, price = 3999 / 100, quantity = 1\<rparr>]"

definition initial_shippingMethods :: "shipping_method list" where
  "initial_shippingMethods =
     [\<lparr>sm_id = ''standard'', sm_price = 599 / 100\<rparr>,
      \<lparr>sm_id = ''express'', sm_price = 1499 / 100\<rparr>,
      \<lparr>sm_id = ''overnight'', sm_price = 2999 / 100\<rparr>]"

definition initializeForms :: "checkout \<Rightarrow> checkout" where
  "initializeForms s = s
     \<lparr>cartForm := fb_group
        [(''items'', fb_control (JItems (cartItems s)) []),
         (''shippingMethod'', fb_control (JStr ''standard'') [Required])],
      shippingForm := fb_group
        [(''firstName'', fb_control (JStr ''Jean'') [Required, MinLength 2]),
         (''lastName'', fb_control (JStr ''Dupont'') [Required, MinLength 2]),
         (''email'', fb_control (JStr ''jean.dupont@example.com'') [Required, Email]),
         (''phone'', fb_control (JStr ''+33 6 12 34 56 78'') [Required, Pattern PhoneRe]),
         (''address'', fb_control (JStr ''123 Rue de Paris'') [Required, MinLength 5]),
         (''city'', fb_control (JStr ''Paris'') [Required, MinLength 2]),
         (''postalCode'', fb_control (JStr ''75001'') [Required, Pattern (DigitsRe 5 5)]),
         (''country'', fb_control (JStr ''FR'') [Required])],
      paymentForm := fb_group
        [(''paymentMethod'', fb_control (JStr ''card'') [Required]),
         (''cardName'', fb_control (JStr ''Jean Dupont'') [Required, MinLength 5]),
         (''cardNumber'', fb_control (JStr ''4111111111111111'') [Required, Pattern (DigitsRe 16 16)]),
         (''expiryDate'', fb_control (JStr ''12/25'') [Required, Pattern ExpiryRe]),
         (''cvv'', fb_control (JStr ''123'') [Required, Pattern (DigitsRe 3 4)]),
         (''billingAddress'', fb_control (JBool True) [])],
      confirmationForm := fb_group
        [(''acceptTerms'', fb_control (JBool False) [RequiredTrue]),
         (''acceptPrivacy'', fb_control (JBool False) [RequiredTrue])]\<rparr>"

definition new_component :: checkout where
  \<comment> \<open>the field initialisers of the class; the four forms are unassigned until
      \<^verbatim>\<open>ngOnInit\<close>, which overwrites the placeholders given here\<close>
  "new_component =
     \<lparr>currentStep = 1, totalSteps = 4,
      cartForm = fb_group [], shippingForm = fb_group [],
      paymentForm = fb_group [], confirmationForm = fb_group [],
      cartItems = initial_cartItems, shippingMethods = initial_shippingMethods,
      taxRate = 2 / 10, orderData = None\<rparr>"

definition ngOnInit :: "checkout \<Rightarrow> checkout" where
  "ngOnInit s = initializeForms s"

definition init :: checkout where
  \<comment> \<open>the wizard session when the view is entered\<close>
  "init = ngOnInit new_component"

subsection \<open>Navigation\<close>

definition getCurrentForm :: "checkout \<Rightarrow> form_ref option" where
  "getCurrentForm s =
     (if currentStep s = 1 then Some CartRef
      else if currentStep s = 2 then Some ShippingRef
      else if currentStep s = 3 then Some PaymentRef
      else if currentStep s = 4 then Some ConfirmationRef
      else None)"

definition getFormAtStep :: "checkout \<Rightarrow> int \<Rightarrow> form_ref option" where
  "getFormAtStep s step =
     (if step = 1 then Some CartRef
      else if step = 2 then Some ShippingRef
      else if step = 3 then Some PaymentRef
      else if step = 4 then Some ConfirmationRef
      else None)"

definition isStepCompleted :: "checkout \<Rightarrow> int \<Rightarrow> bool" where
  "isStepCompleted s step =
     (case getFormAtStep s step of None \<Rightarrow> False | Some r \<Rightarrow> group_valid (form_of r s))"

definition object_keys :: "form_group \<Rightarrow> string list" where
  \<comment> \<open>\<^verbatim>\<open>Object.keys(form.controls)\<close>\<close>
  "object_keys f = map fst (controls f)"

definition touch_all :: "form_group \<Rightarrow> form_group" where
  \<comment> \<open>the \<^verbatim>\<open>forEach\<close> of \<^verbatim>\<open>markFormTouched\<close>, run on one form\<close>
  "touch_all f = fold markAsTouched (object_keys f) f"

fun markFormTouched :: "form_ref option \<Rightarrow> checkout \<Rightarrow> checkout" where
  "markFormTouched None s = s"
| "markFormTouched (Some r) s = update_form r touch_all s"

definition nextStep :: "checkout \<Rightarrow> checkout" where
  "nextStep s =
     (let currentForm = getCurrentForm s in
      if (case currentForm of None \<Rightarrow> False | Some r \<Rightarrow> group_valid (form_of r s)) then
        (if currentStep s < totalSteps s then s\<lparr>currentStep := currentStep s + 1\<rparr> else s)
      else markFormTouched currentForm s)"

definition previousStep :: "checkout \<Rightarrow> checkout" where
  "previousStep s = (if currentStep s > 1 then s\<lparr>currentStep := currentStep s - 1\<rparr> else s)"

subsection \<open>Totals and the order\<close>

text \<open>Decimal digits of a natural number, as \<^verbatim>\<open>String(n)\<close> prints them.\<close>

fun show_nat :: "nat \<Rightarrow> string" where
  "show_nat n =
     (if n < 10 then [''0123456789'' ! n]
      else show_nat (n div 10) @ [''0123456789'' ! (n mod 10)])"

declare show_nat.simps [simp del]

definition toFixed2 :: "rat \<Rightarrow> printed" where
  \<comment> \<open>\<^verbatim>\<open>x.toFixed(2)\<close>: the nearest multiple of 0.01, a tie going away from zero, printed
      with two decimals and the sign of \<open>x\<close>\<close>
  "toFixed2 x =
     (if 10 ^ 21 \<le> \<bar>x\<bar> then Exponent x
      else
        (let n = nat \<lfloor>\<bar>x\<bar> * 100 + 1 / 2\<rfloor> in
         Fixed ((if x < 0 then ''-'' else []) @ show_nat (n div 100) @ ''.''
           @ [''0123456789'' ! (n div 10 mod 10), ''0123456789'' ! (n mod 10)])))"

definition find_method :: "shipping_method list \<Rightarrow> jsval option \<Rightarrow> shipping_method option" where
  \<comment> \<open>\<^verbatim>\<open>shippingMethods.find((m) => m.id === v)\<close>: \<open>===\<close> holds for an equal string only\<close>
  "find_method ms v = find (\<lambda>m. v = Some (JStr (sm_id m))) ms"

definition getTotals :: "checkout \<Rightarrow> totals" where
  "getTotals s =
     (let subtotal = foldl (\<lambda>sum item. sum + price item * quantity item) 0 (cartItems s);
          shipping =
            (case find_method (shippingMethods s) (get_value (cartForm s) ''shippingMethod'') of
               None \<Rightarrow> 0
             | Some m \<Rightarrow> sm_price m);
          subtotalWithShipping = subtotal + shipping;
          tax = subtotalWithShipping * taxRate s;
          total = subtotalWithShipping + tax
      in \<lparr>t_subtotal = toFixed2 subtotal, t_shipping = toFixed2 shipping,
          t_tax = toFixed2 tax, t_total = toFixed2 total\<rparr>)"

text \<open>
  \<^verbatim>\<open>placeOrder\<close> reads the clock twice: \<open>now\<close> is \<^verbatim>\<open>Date.now()\<close> and \<open>today\<close> is
  \<^verbatim>\<open>new Date().toLocaleDateString('fr-FR')\<close>.
\<close>

definition placeOrder :: "nat \<Rightarrow> string \<Rightarrow> checkout \<Rightarrow> checkout" where
  "placeOrder now today s =
     (if group_valid (confirmationForm s) then
        s\<lparr>orderData := Some
            \<lparr>o_cart = group_value (cartForm s),
             o_shipping = group_value (shippingForm s),
             o_payment =
               \<lparr>p_method = get_value (paymentForm s) ''paymentMethod'',
                p_cardName = get_value (paymentForm s) ''cardName''\<rparr>,
             o_totals = getTotals s,
             o_orderNumber = ''ORD-'' @ show_nat now,
             o_date = today\<rparr>\<rparr>
      else s)"

subsection \<open>Sessions\<close>

text \<open>
  What can happen to a session: the three buttons, an edit of a field and a field
  losing the focus. A run applies a list of events, first to last.
\<close>

datatype event =
    NextStep
  | PreviousStep
  | PlaceOrder nat string
  | Edit form_ref string jsval
  | Blur form_ref string

fun apply_event :: "event \<Rightarrow> checkout \<Rightarrow> checkout" where
  "apply_event NextStep s = nextStep s"
| "apply_event PreviousStep s = previousStep s"
| "apply_event (PlaceOrder now today) s = placeOrder now today s"
| "apply_event (Edit r k v) s = update_form r (setValue k v) s"
| "apply_event (Blur r k) s = update_form r (markAsTouched k) s"

definition run :: "event list \<Rightarrow> checkout \<Rightarrow> checkout" where
  "run es s = fold apply_event es s"

subsection \<open>Notions used to state the properties\<close>

text \<open>
  The validators of a form, by control name. No method of the component and no event
  adds, removes or reconfigures a control, so this table is fixed for a session.
\<close>

definition validators_of :: "form_group \<Rightarrow> (string \<times> validator list) list" where
  "validators_of f = map (\<lambda>(k, c). (k, c_validators c)) (controls f)"

definition session_inv :: "checkout \<Rightarrow> bool" where
  "session_inv s =
     (totalSteps s = 4 \<and> 1 \<le> currentStep s \<and> currentStep s \<le> 4
      \<and> validators_of (cartForm s) = validators_of (cartForm init)
      \<and> validators_of (shippingForm s) = validators_of (shippingForm init)
      \<and> validators_of (paymentForm s) = validators_of (paymentForm init)
      \<and> validators_of (confirmationForm s) = validators_of (confirmationForm init))"

section \<open>Properties of the form primitives\<close>

lemma map_fst_update_control: "map fst (update_control k g cs) = map fst cs"
  by (induction cs) auto

lemma map_of_update_control:
  "map_of (update_control k g cs) k' = (if k' = k then map_option g (map_of cs k) else map_of cs k')"
  by (induction cs) auto

lemma update_control_twice:
  "update_control k g (update_control k h cs) = update_control k (g \<circ> h) cs"
  by (induction cs) auto

lemma update_control_commute:
  "k \<noteq> k' \<Longrightarrow>
   update_control k g (update_control k' h cs) = update_control k' h (update_control k g cs)"
  by (induction cs) auto

lemma markAsTouched_idem: "markAsTouched k (markAsTouched k f) = markAsTouched k f"
  by (cases "map_of (controls f) k")
    (simp_all add: markAsTouched_def get_control_def map_of_update_control
      update_control_twice comp_def)

lemma markAsTouched_commute:
  "markAsTouched k (markAsTouched k' f) = markAsTouched k' (markAsTouched k f)"
proof (cases "k = k'")
  case True
  then show ?thesis by simp
next
  case False
  then show ?thesis
    by (cases "map_of (controls f) k"; cases "map_of (controls f) k'")
      (simp_all add: markAsTouched_def get_control_def map_of_update_control
        update_control_commute)
qed

lemma object_keys_markAsTouched: "object_keys (markAsTouched k f) = object_keys f"
  by (simp add: markAsTouched_def object_keys_def map_fst_update_control split: option.split)

lemma fold_markAsTouched_commute:
  "fold markAsTouched ks (markAsTouched k f) = markAsTouched k (fold markAsTouched ks f)"
proof (induction ks arbitrary: f)
  case Nil
  show ?case by simp
next
  case (Cons a ks)
  have "fold markAsTouched (a # ks) (markAsTouched k f)
      = fold markAsTouched ks (markAsTouched k (markAsTouched a f))"
    by (simp add: markAsTouched_commute [of a k])
  also have "\<dots> = markAsTouched k (fold markAsTouched ks (markAsTouched a f))"
    by (rule Cons.IH)
  finally show ?case by simp
qed

lemma fold_markAsTouched_twice:
  "fold markAsTouched ks (fold markAsTouched ks f) = fold markAsTouched ks f"
proof (induction ks arbitrary: f)
  case Nil
  show ?case by simp
next
  case (Cons k ks)
  have "fold markAsTouched (k # ks) (fold markAsTouched (k # ks) f)
      = fold markAsTouched ks (markAsTouched k (fold markAsTouched ks (markAsTouched k f)))"
    by simp
  also have "\<dots> = fold markAsTouched ks (fold markAsTouched ks (markAsTouched k (markAsTouched k f)))"
    by (simp add: fold_markAsTouched_commute)
  also have "\<dots> = fold markAsTouched ks (markAsTouched k f)"
    by (simp add: markAsTouched_idem Cons.IH)
  finally show ?case by simp
qed

lemma object_keys_fold_markAsTouched: "object_keys (fold markAsTouched ks f) = object_keys f"
  by (induction ks arbitrary: f) (simp_all add: object_keys_markAsTouched)

lemma touch_all_idem: "touch_all (touch_all f) = touch_all f"
  by (simp add: touch_all_def object_keys_fold_markAsTouched fold_markAsTouched_twice)

lemma update_control_append:
  "k \<notin> fst ` set pre \<Longrightarrow>
   update_control k g (pre @ (k, c) # post) = pre @ (k, g c) # post"
  by (induction pre) auto

lemma map_of_append_fresh:
  "k \<notin> fst ` set pre \<Longrightarrow> map_of (pre @ (k, c) # post) k = Some c"
  by (induction pre) auto

lemma fold_markAsTouched_controls:
  "controls f = pre @ cs \<Longrightarrow> distinct (map fst (pre @ cs)) \<Longrightarrow>
   controls (fold markAsTouched (map fst cs) f)
     = pre @ map (\<lambda>(k, c). (k, c\<lparr>c_touched := True\<rparr>)) cs"
proof (induction cs arbitrary: pre f)
  case Nil
  then show ?case by simp
next
  case (Cons p cs)
  obtain k c where p: "p = (k, c)" by (cases p)
  from Cons.prems p have fresh: "k \<notin> fst ` set pre" by auto
  let ?f = "markAsTouched k f"
  have found: "get_control f k = Some c"
    using Cons.prems(1) map_of_append_fresh [OF fresh, of c cs]
    by (simp add: get_control_def p del: map_of_append)
  have "controls ?f = (pre @ [(k, c\<lparr>c_touched := True\<rparr>)]) @ cs"
    using Cons.prems(1) fresh
    by (simp add: p markAsTouched_def found update_control_append)
  moreover have "distinct (map fst ((pre @ [(k, c\<lparr>c_touched := True\<rparr>)]) @ cs))"
    using Cons.prems(2) by (simp add: p)
  ultimately have "controls (fold markAsTouched (map fst cs) ?f)
      = (pre @ [(k, c\<lparr>c_touched := True\<rparr>)]) @ map (\<lambda>(k, c). (k, c\<lparr>c_touched := True\<rparr>)) cs"
    by (rule Cons.IH)
  then show ?case by (simp add: p)
qed

lemma touch_all_controls:
  "distinct (object_keys f) \<Longrightarrow>
   controls (touch_all f) = map (\<lambda>(k, c). (k, c\<lparr>c_touched := True\<rparr>)) (controls f)"
  using fold_markAsTouched_controls [of f "[]" "controls f"]
  by (simp add: touch_all_def object_keys_def)

lemma validators_of_update_control:
  "(\<And>c. c_validators (g c) = c_validators c) \<Longrightarrow>
   map (\<lambda>(k, c). (k, c_validators c)) (update_control k g cs)
     = map (\<lambda>(k, c). (k, c_validators c)) cs"
  by (induction cs) auto

lemma validators_of_markAsTouched: "validators_of (markAsTouched k f) = validators_of f"
  by (simp add: validators_of_def markAsTouched_def validators_of_update_control split: option.split)

lemma validators_of_setValue: "validators_of (setValue k v f) = validators_of f"
  by (simp add: validators_of_def setValue_def validators_of_update_control)

lemma validators_of_touch_all: "validators_of (touch_all f) = validators_of f"
proof -
  have "validators_of (fold markAsTouched ks f) = validators_of f" for ks
    by (induction ks arbitrary: f) (simp_all add: validators_of_markAsTouched)
  then show ?thesis by (simp add: touch_all_def)
qed

section \<open>Runs and the initial session\<close>

lemma run_Nil: "run [] s = s"
  by (simp add: run_def)

lemma run_Cons: "run (e # es) s = run es (apply_event e s)"
  by (simp add: run_def)

lemma run_snoc: "run (es @ [e]) s = apply_event e (run es s)"
  by (simp add: run_def)

lemma init_fields:
  "currentStep init = 1" "totalSteps init = 4" "orderData init = None"
  "cartItems init = initial_cartItems" "shippingMethods init = initial_shippingMethods"
  "taxRate init = 1 / 5"
  by (simp_all add: init_def ngOnInit_def initializeForms_def new_component_def)

lemma validators_of_init:
  "validators_of (cartForm init) = [(''items'', []), (''shippingMethod'', [Required])]"
  "validators_of (shippingForm init) =
     [(''firstName'', [Required, MinLength 2]), (''lastName'', [Required, MinLength 2]),
      (''email'', [Required, Email]), (''phone'', [Required, Pattern PhoneRe]),
      (''address'', [Required, MinLength 5]), (''city'', [Required, MinLength 2]),
      (''postalCode'', [Required, Pattern (DigitsRe 5 5)]), (''country'', [Required])]"
  "validators_of (paymentForm init) =
     [(''paymentMethod'', [Required]), (''cardName'', [Required, MinLength 5]),
      (''cardNumber'', [Required, Pattern (DigitsRe 16 16)]),
      (''expiryDate'', [Required, Pattern ExpiryRe]),
      (''cvv'', [Required, Pattern (DigitsRe 3 4)]), (''billingAddress'', [])]"
  "validators_of (confirmationForm init) =
     [(''acceptTerms'', [RequiredTrue]), (''acceptPrivacy'', [RequiredTrue])]"
  by (simp_all add: init_def ngOnInit_def initializeForms_def new_component_def
      validators_of_def fb_group_def fb_control_def)

lemma email_default: "email_test ''jean.dupont@example.com''"
  by (simp add: email_test_def atom_ok_def label_ok_def is_atext_def is_alnum_def is_digit_def)

lemma init_valid:
  "group_valid (cartForm init)" "group_valid (shippingForm init)"
  "group_valid (paymentForm init)" "\<not> group_valid (confirmationForm init)"
  by (simp_all add: init_def ngOnInit_def initializeForms_def new_component_def
      group_valid_def control_valid_def fb_group_def fb_control_def email_default
      phone_char_def is_digit_def is_space_def)

section \<open>The session invariant\<close>

lemma session_inv_init: "session_inv init"
  by (simp add: session_inv_def init_fields)

lemma session_inv_update_form:
  "(\<And>f. validators_of (g f) = validators_of f) \<Longrightarrow> session_inv s
   \<Longrightarrow> session_inv (update_form r g s)"
  by (cases r) (simp_all add: session_inv_def)

lemma session_inv_nextStep: "session_inv s \<Longrightarrow> session_inv (nextStep s)"
proof -
  assume inv: "session_inv s"
  have touch: "session_inv (markFormTouched c s)" for c
    using inv by (cases c) (simp_all add: session_inv_update_form validators_of_touch_all)
  have step: "currentStep s < totalSteps s \<Longrightarrow> session_inv (s\<lparr>currentStep := currentStep s + 1\<rparr>)"
    using inv by (simp add: session_inv_def)
  show ?thesis
    using inv touch step by (simp add: nextStep_def Let_def)
qed

lemma session_inv_previousStep: "session_inv s \<Longrightarrow> session_inv (previousStep s)"
  by (simp add: previousStep_def session_inv_def)

lemma session_inv_placeOrder: "session_inv s \<Longrightarrow> session_inv (placeOrder now today s)"
  by (simp add: placeOrder_def session_inv_def)

lemma session_inv_apply_event: "session_inv s \<Longrightarrow> session_inv (apply_event e s)"
  by (cases e)
    (simp_all add: session_inv_nextStep session_inv_previousStep session_inv_placeOrder
      session_inv_update_form validators_of_setValue validators_of_markAsTouched)

lemma session_inv_fold: "session_inv s \<Longrightarrow> session_inv (fold apply_event es s)"
  by (induction es arbitrary: s) (simp_all add: session_inv_apply_event)

lemma session_inv_run: "session_inv (run es init)"
  by (simp add: run_def session_inv_fold session_inv_init)

lemma object_keys_validators_of: "object_keys f = map fst (validators_of f)"
  by (simp add: object_keys_def validators_of_def comp_def case_prod_unfold)

lemma session_inv_distinct: "session_inv s \<Longrightarrow> distinct (object_keys (form_of r s))"
  by (cases r) (simp_all add: session_inv_def object_keys_validators_of validators_of_init)

lemma session_inv_current:
  "session_inv s \<Longrightarrow> \<exists>r. getCurrentForm s = Some r"
  by (auto simp add: session_inv_def getCurrentForm_def)

lemma form_of_update_form:
  "form_of r' (update_form r g s) = (if r' = r then g (form_of r s) else form_of r' s)"
  by (cases r; cases r') simp_all

lemma update_form_fields:
  "currentStep (update_form r g s) = currentStep s"
  "totalSteps (update_form r g s) = totalSteps s"
  "orderData (update_form r g s) = orderData s"
  "cartItems (update_form r g s) = cartItems s"
  "shippingMethods (update_form r g s) = shippingMethods s"
  "taxRate (update_form r g s) = taxRate s"
  by (cases r; simp)+

section \<open>Sessions used as examples\<close>

lemma init_forms:
  "cartForm init = fb_group
     [(''items'', fb_control (JItems initial_cartItems) []),
      (''shippingMethod'', fb_control (JStr ''standard'') [Required])]"
  "confirmationForm init = fb_group
     [(''acceptTerms'', fb_control (JBool False) [RequiredTrue]),
      (''acceptPrivacy'', fb_control (JBool False) [RequiredTrue])]"
  by (simp_all add: init_def ngOnInit_def initializeForms_def new_component_def)

lemma run_next3: "run [NextStep, NextStep, NextStep] init = init\<lparr>currentStep := 4\<rparr>"
  by (simp add: run_Cons run_Nil nextStep_def getCurrentForm_def init_fields init_valid)

lemma run_append: "run (es @ fs) s = run fs (run es s)"
  by (simp add: run_def)

lemma confirmed_session:
  "run [NextStep, NextStep, NextStep,
        Edit ConfirmationRef ''acceptTerms'' (JBool True),
        Edit ConfirmationRef ''acceptPrivacy'' (JBool True)] init
   = init\<lparr>currentStep := 4,
          confirmationForm := fb_group
            [(''acceptTerms'', fb_control (JBool True) [RequiredTrue]),
             (''acceptPrivacy'', fb_control (JBool True) [RequiredTrue])]\<rparr>"
proof -
  have "run ([NextStep, NextStep, NextStep] @
        [Edit ConfirmationRef ''acceptTerms'' (JBool True),
         Edit ConfirmationRef ''acceptPrivacy'' (JBool True)]) init
   = init\<lparr>currentStep := 4,
          confirmationForm := fb_group
            [(''acceptTerms'', fb_control (JBool True) [RequiredTrue]),
             (''acceptPrivacy'', fb_control (JBool True) [RequiredTrue])]\<rparr>"
    unfolding run_append run_next3
    by (simp add: run_Cons run_Nil init_forms setValue_def fb_group_def fb_control_def)
  then show ?thesis by simp
qed

section \<open>The position stays between 1 and 4\<close>

text \<open>
  Claim C5. In every session reached from the initial one by any sequence of events
  (next, previous, place order, edits, blurs) the position lies between 1 and 4.
\<close>

theorem position_in_range:
  "1 \<le> currentStep (run es init) \<and> currentStep (run es init) \<le> 4"
  using session_inv_run [of es] by (simp add: session_inv_def)

section \<open>Going forward\<close>

text \<open>
  Claim C1, as the code has it. In a reachable session the current form exists. If it is
  valid, \<^verbatim>\<open>nextStep\<close> adds one to the position below 4 and changes nothing at
  position 4. If it is invalid, the position and the order stay as they are, every
  control of the current form is marked as touched (values and validators unchanged),
  and the other forms are untouched.
\<close>

theorem nextStep_gate:
  assumes "s = run es init"
  shows "\<exists>r. getCurrentForm s = Some r \<and>
    (if group_valid (form_of r s)
     then nextStep s = (if currentStep s < 4 then s\<lparr>currentStep := currentStep s + 1\<rparr> else s)
     else currentStep (nextStep s) = currentStep s
       \<and> orderData (nextStep s) = orderData s
       \<and> controls (form_of r (nextStep s))
           = map (\<lambda>(k, c). (k, c\<lparr>c_touched := True\<rparr>)) (controls (form_of r s))
       \<and> (\<forall>r'. r' \<noteq> r \<longrightarrow> form_of r' (nextStep s) = form_of r' s))"
proof -
  have inv: "session_inv s"
    using assms by (simp add: session_inv_run)
  then obtain r where r: "getCurrentForm s = Some r"
    using session_inv_current by blast
  have total: "totalSteps s = 4"
    using inv by (simp add: session_inv_def)
  have "nextStep s = (if currentStep s < 4 then s\<lparr>currentStep := currentStep s + 1\<rparr> else s)"
    if "group_valid (form_of r s)"
    using that r total by (simp add: nextStep_def)
  moreover have "currentStep (nextStep s) = currentStep s
       \<and> orderData (nextStep s) = orderData s
       \<and> controls (form_of r (nextStep s))
           = map (\<lambda>(k, c). (k, c\<lparr>c_touched := True\<rparr>)) (controls (form_of r s))
       \<and> (\<forall>r'. r' \<noteq> r \<longrightarrow> form_of r' (nextStep s) = form_of r' s)"
    if "\<not> group_valid (form_of r s)"
  proof -
    have next_eq: "nextStep s = update_form r touch_all s"
      using that r by (simp add: nextStep_def)
    show ?thesis
      using session_inv_distinct [OF inv, of r]
      by (simp add: next_eq update_form_fields form_of_update_form touch_all_controls)
  qed
  ultimately show ?thesis
    using r by simp
qed

text \<open>
  The two branches of C1 at concrete sessions: the initial session (valid cart form,
  position 1) and the session three steps later (confirmation form, nothing accepted).
\<close>

theorem nextStep_gate_witness:
  "nextStep init = init\<lparr>currentStep := 2\<rparr>
   \<and> currentStep (nextStep (run [NextStep, NextStep, NextStep] init)) = 4
   \<and> controls (confirmationForm (nextStep (run [NextStep, NextStep, NextStep] init)))
      = [(''acceptTerms'', \<lparr>c_value = JBool False, c_touched = True, c_validators = [RequiredTrue]\<rparr>),
         (''acceptPrivacy'', \<lparr>c_value = JBool False, c_touched = True, c_validators = [RequiredTrue]\<rparr>)]"
proof -
  have cur1: "getCurrentForm init = Some CartRef"
    by (simp add: getCurrentForm_def init_fields)
  have cur4: "getCurrentForm (run [NextStep, NextStep, NextStep] init) = Some ConfirmationRef"
    by (simp add: run_next3 getCurrentForm_def)
  have inv4: "\<not> group_valid (confirmationForm (run [NextStep, NextStep, NextStep] init))"
    by (simp add: run_next3 init_valid)
  have conf4: "controls (confirmationForm (run [NextStep, NextStep, NextStep] init))
      = [(''acceptTerms'', fb_control (JBool False) [RequiredTrue]),
         (''acceptPrivacy'', fb_control (JBool False) [RequiredTrue])]"
    by (simp add: run_next3 init_forms fb_group_def)
  show ?thesis
    using nextStep_gate [of init "[]"]
      nextStep_gate [of "run [NextStep, NextStep, NextStep] init" "[NextStep, NextStep, NextStep]"]
    by (simp add: run_Nil cur1 cur4 inv4 conf4 init_valid init_fields fb_control_def)
      (simp add: run_next3)
qed

text \<open>
  Claim C1 as stated fails at the last step: with both boxes ticked at position 4 the
  form is valid and the position is not below 4, yet \<^verbatim>\<open>nextStep\<close> marks no control
  as touched.
\<close>

theorem nextStep_last_step_counterexample:
  "currentStep (run [NextStep, NextStep, NextStep,
        Edit ConfirmationRef ''acceptTerms'' (JBool True),
        Edit ConfirmationRef ''acceptPrivacy'' (JBool True)] init) = 4
   \<and> group_valid (confirmationForm (run [NextStep, NextStep, NextStep,
        Edit ConfirmationRef ''acceptTerms'' (JBool True),
        Edit ConfirmationRef ''acceptPrivacy'' (JBool True)] init))
   \<and> map (\<lambda>(k, c). (k, c_touched c)) (controls (confirmationForm (nextStep (run [NextStep, NextStep, NextStep,
        Edit ConfirmationRef ''acceptTerms'' (JBool True),
        Edit ConfirmationRef ''acceptPrivacy'' (JBool True)] init))))
      = [(''acceptTerms'', False), (''acceptPrivacy'', False)]"
  unfolding confirmed_session
  by (simp add: nextStep_def getCurrentForm_def init_fields group_valid_def control_valid_def
      fb_group_def fb_control_def)

section \<open>Marking a form as touched\<close>

text \<open>
  Claim C8. \<^verbatim>\<open>markFormTouched\<close> is idempotent: on any session and any form reference
  (or \<^verbatim>\<open>null\<close>), a second call right after the first changes nothing.
\<close>

theorem markFormTouched_idempotent:
  "markFormTouched r (markFormTouched r s) = markFormTouched r s"
proof (cases r)
  case None
  then show ?thesis by simp
next
  case (Some ref)
  then show ?thesis by (cases ref) (simp_all add: touch_all_idem)
qed

section \<open>The two step-to-form mappings\<close>

text \<open>
  Claim C9. \<^verbatim>\<open>getCurrentForm\<close> returns the form that \<^verbatim>\<open>getFormAtStep\<close> returns for the
  current position: the cart form for 1, the shipping form for 2, the payment form for
  3, the confirmation form for 4, and \<^verbatim>\<open>null\<close> for any other step.
\<close>

theorem getCurrentForm_getFormAtStep:
  "getCurrentForm s = getFormAtStep s (currentStep s)
   \<and> getFormAtStep s 1 = Some CartRef
   \<and> getFormAtStep s 2 = Some ShippingRef
   \<and> getFormAtStep s 3 = Some PaymentRef
   \<and> getFormAtStep s 4 = Some ConfirmationRef
   \<and> (step < 1 \<or> 4 < step \<longrightarrow> getFormAtStep s step = None)"
  by (auto simp add: getCurrentForm_def getFormAtStep_def)

text \<open>
  C9 at steps outside the range, and at the initial session.
\<close>

theorem getCurrentForm_getFormAtStep_witness:
  "getFormAtStep init 5 = None \<and> getFormAtStep init 0 = None
   \<and> getCurrentForm init = Some CartRef"
  using getCurrentForm_getFormAtStep [of init 5] getCurrentForm_getFormAtStep [of init 0]
  by (simp add: init_fields)

section \<open>Going back\<close>

lemma run_next2: "run [NextStep, NextStep] init = init\<lparr>currentStep := 3\<rparr>"
  by (simp add: run_Cons run_Nil nextStep_def getCurrentForm_def init_fields init_valid)

text \<open>
  Claim C6. \<^verbatim>\<open>previousStep\<close> subtracts one from a position above 1 and does nothing at
  position 1; it checks no validity, and every form and the order stay as they are.
\<close>

theorem previousStep_frame:
  "(1 < currentStep s \<longrightarrow> currentStep (previousStep s) = currentStep s - 1)
   \<and> (currentStep s \<le> 1 \<longrightarrow> previousStep s = s)
   \<and> (\<forall>r. form_of r (previousStep s) = form_of r s)
   \<and> orderData (previousStep s) = orderData s"
proof -
  have "form_of r (previousStep s) = form_of r s" for r
    by (cases r) (simp_all add: previousStep_def)
  then show ?thesis by (simp add: previousStep_def)
qed

text \<open>
  C6 at position 3 and at position 1.
\<close>

theorem previousStep_frame_witness:
  "currentStep (previousStep (run [NextStep, NextStep] init)) = 2
   \<and> previousStep init = init"
  using previousStep_frame [of "run [NextStep, NextStep] init"] previousStep_frame [of init]
  by (simp add: run_next2 init_fields)

section \<open>Placing the order\<close>

lemma confirmation_valid_iff:
  assumes "validators_of f = [(''acceptTerms'', [RequiredTrue]), (''acceptPrivacy'', [RequiredTrue])]"
  shows "group_valid f \<longleftrightarrow>
    get_value f ''acceptTerms'' = Some (JBool True)
    \<and> get_value f ''acceptPrivacy'' = Some (JBool True)"
proof -
  from assms obtain c1 c2 where
    cs: "controls f = [(''acceptTerms'', c1), (''acceptPrivacy'', c2)]"
    and v1: "c_validators c1 = [RequiredTrue]" and v2: "c_validators c2 = [RequiredTrue]"
    by (auto simp add: validators_of_def map_eq_Cons_conv)
  show ?thesis
    by (simp add: group_valid_def control_valid_def get_value_def get_control_def cs v1 v2)
qed

text \<open>
  Claim C7. In a reachable session \<^verbatim>\<open>placeOrder\<close> writes an order exactly when both
  \<^verbatim>\<open>acceptTerms\<close> and \<^verbatim>\<open>acceptPrivacy\<close> hold the value \<^verbatim>\<open>true\<close>; then only
  \<^verbatim>\<open>orderData\<close> changes. Otherwise the session, \<^verbatim>\<open>orderData\<close> included, is unchanged.
\<close>

theorem placeOrder_guard:
  assumes "s = run es init"
  shows "if get_value (confirmationForm s) ''acceptTerms'' = Some (JBool True)
          \<and> get_value (confirmationForm s) ''acceptPrivacy'' = Some (JBool True)
     then \<exists>od. placeOrder now today s = s\<lparr>orderData := Some od\<rparr>
            \<and> o_totals od = getTotals s \<and> o_orderNumber od = ''ORD-'' @ show_nat now
            \<and> o_date od = today
     else placeOrder now today s = s"
proof -
  have "session_inv s"
    using assms by (simp add: session_inv_run)
  then have "validators_of (confirmationForm s)
      = [(''acceptTerms'', [RequiredTrue]), (''acceptPrivacy'', [RequiredTrue])]"
    by (simp add: session_inv_def validators_of_init)
  then have "group_valid (confirmationForm s) \<longleftrightarrow>
    get_value (confirmationForm s) ''acceptTerms'' = Some (JBool True)
    \<and> get_value (confirmationForm s) ''acceptPrivacy'' = Some (JBool True)"
    by (rule confirmation_valid_iff)
  moreover have "\<exists>od. placeOrder now today s = s\<lparr>orderData := Some od\<rparr>
            \<and> o_totals od = getTotals s \<and> o_orderNumber od = ''ORD-'' @ show_nat now
            \<and> o_date od = today"
    if "group_valid (confirmationForm s)"
    using that unfolding placeOrder_def
    by (intro exI [of _ "\<lparr>o_cart = group_value (cartForm s),
             o_shipping = group_value (shippingForm s),
             o_payment =
               \<lparr>p_method = get_value (paymentForm s) ''paymentMethod'',
                p_cardName = get_value (paymentForm s) ''cardName''\<rparr>,
             o_totals = getTotals s,
             o_orderNumber = ''ORD-'' @ show_nat now,
             o_date = today\<rparr>"]) simp
  moreover have "placeOrder now today s = s" if "\<not> group_valid (confirmationForm s)"
    using that by (simp add: placeOrder_def)
  ultimately show ?thesis
    by (simp only: split: if_split) blast
qed

text \<open>
  C7 at the initial session (nothing accepted) and after both boxes are ticked.
\<close>

theorem placeOrder_guard_witness:
  "placeOrder 1 ''01/01/2026'' init = init
   \<and> orderData (placeOrder 1 ''01/01/2026''
        (run [NextStep, NextStep, NextStep,
              Edit ConfirmationRef ''acceptTerms'' (JBool True),
              Edit ConfirmationRef ''acceptPrivacy'' (JBool True)] init)) \<noteq> None"
proof -
  have a: "get_value (confirmationForm init) ''acceptTerms'' = Some (JBool False)"
    by (simp add: init_forms get_value_def get_control_def fb_group_def fb_control_def)
  have b: "get_value (confirmationForm (run [NextStep, NextStep, NextStep,
              Edit ConfirmationRef ''acceptTerms'' (JBool True),
              Edit ConfirmationRef ''acceptPrivacy'' (JBool True)] init)) ''acceptTerms''
           = Some (JBool True)"
    "get_value (confirmationForm (run [NextStep, NextStep, NextStep,
              Edit ConfirmationRef ''acceptTerms'' (JBool True),
              Edit ConfirmationRef ''acceptPrivacy'' (JBool True)] init)) ''acceptPrivacy''
           = Some (JBool True)"
    by (simp_all add: confirmed_session get_value_def get_control_def fb_group_def fb_control_def)
  show ?thesis
    using placeOrder_guard [of init "[]" 1 "''01/01/2026''"]
      placeOrder_guard [of "run [NextStep, NextStep, NextStep,
              Edit ConfirmationRef ''acceptTerms'' (JBool True),
              Edit ConfirmationRef ''acceptPrivacy'' (JBool True)] init"
          "[NextStep, NextStep, NextStep,
              Edit ConfirmationRef ''acceptTerms'' (JBool True),
              Edit ConfirmationRef ''acceptPrivacy'' (JBool True)]" 1 "''01/01/2026''"]
    by (auto simp add: run_Nil a b)
qed

section \<open>Totals\<close>

lemma foldl_sum_list:
  "foldl (\<lambda>sum item. sum + g item) a xs = a + sum_list (map g xs)" for a :: rat
  by (induction xs arbitrary: a) simp_all

lemma show_nat_digit: "n < 10 \<Longrightarrow> show_nat n = [''0123456789'' ! n]"
  by (subst show_nat.simps) simp

lemma show_nat_step:
  "10 \<le> n \<Longrightarrow> show_nat n = show_nat (n div 10) @ [''0123456789'' ! (n mod 10)]"
  by (subst show_nat.simps) simp

lemma floor_rat_numeral:
  "\<lfloor>numeral a / numeral b :: rat\<rfloor> = numeral a div numeral b"
  using floor_divide_of_int_eq [of "numeral a" "numeral b", where ?'a = rat] by simp

lemma toFixed2_zero: "toFixed2 0 = Fixed ''0.00''"
  by (simp add: toFixed2_def show_nat_digit)

lemma toFixed2_examples:
  "toFixed2 (13998 / 100) = Fixed ''139.98''"
  "toFixed2 (599 / 100) = Fixed ''5.99''"
  "toFixed2 (29194 / 1000) = Fixed ''29.19''"
  "toFixed2 (175164 / 1000) = Fixed ''175.16''"
  "toFixed2 (27996 / 1000) = Fixed ''28.00''"
  "toFixed2 (167976 / 1000) = Fixed ''167.98''"
  by (simp_all add: toFixed2_def Let_def floor_rat_numeral show_nat_digit show_nat_step)

lemma getTotals_unfolded:
  "getTotals s =
     (let subtotal = (\<Sum>item\<leftarrow>cartItems s. price item * quantity item);
          shippingCost =
            (case find (\<lambda>m. get_value (cartForm s) ''shippingMethod'' = Some (JStr (sm_id m)))
                    (shippingMethods s) of
               None \<Rightarrow> 0
             | Some m \<Rightarrow> sm_price m);
          tax = (subtotal + shippingCost) * taxRate s;
          total = subtotal + shippingCost + tax
      in \<lparr>t_subtotal = toFixed2 subtotal, t_shipping = toFixed2 shippingCost,
          t_tax = toFixed2 tax, t_total = toFixed2 total\<rparr>)"
  by (simp add: getTotals_def find_method_def foldl_sum_list Let_def)

text \<open>
  No method and no event writes \<^verbatim>\<open>cartItems\<close>, \<^verbatim>\<open>shippingMethods\<close> or \<^verbatim>\<open>taxRate\<close>: in
  every reachable session they are the constants of the class.
\<close>

lemma constants_markFormTouched:
  "cartItems (markFormTouched c s) = cartItems s"
  "shippingMethods (markFormTouched c s) = shippingMethods s"
  "taxRate (markFormTouched c s) = taxRate s"
  by (cases c; simp add: update_form_fields)+

lemma constants_apply_event:
  "cartItems (apply_event e s) = cartItems s"
  "shippingMethods (apply_event e s) = shippingMethods s"
  "taxRate (apply_event e s) = taxRate s"
  by (cases e; simp add: nextStep_def Let_def constants_markFormTouched previousStep_def
      placeOrder_def update_form_fields)+

lemma constants_fold:
  "cartItems (fold apply_event es s) = cartItems s
   \<and> shippingMethods (fold apply_event es s) = shippingMethods s
   \<and> taxRate (fold apply_event es s) = taxRate s"
  by (induction es arbitrary: s) (simp_all add: constants_apply_event)

lemma constants_run:
  "cartItems (run es init) = initial_cartItems"
  "shippingMethods (run es init) = initial_shippingMethods"
  "taxRate (run es init) = 1 / 5"
  by (simp_all add: run_def constants_fold init_fields)

lemma subtotal_run:
  "(\<Sum>item\<leftarrow>cartItems (run es init). price item * quantity item) = 13998 / 100"
  by (simp add: constants_run initial_cartItems_def)

lemma getTotals_standard:
  assumes "get_value (cartForm (run es init)) ''shippingMethod'' = Some (JStr ''standard'')"
  shows "getTotals (run es init) =
     \<lparr>t_subtotal = Fixed ''139.98'', t_shipping = Fixed ''5.99'',
      t_tax = Fixed ''29.19'', t_total = Fixed ''175.16''\<rparr>"
proof -
  have ship: "(case find (\<lambda>m. get_value (cartForm (run es init)) ''shippingMethod''
                      = Some (JStr (sm_id m))) (shippingMethods (run es init)) of
               None \<Rightarrow> 0
             | Some m \<Rightarrow> sm_price m) = 599 / 100"
    by (simp add: assms constants_run initial_shippingMethods_def)
  have tax: "(13998 / 100 + 599 / 100) * taxRate (run es init) = 29194 / 1000"
    by (simp add: constants_run)
  have total: "13998 / 100 + 599 / 100 + 29194 / 1000 = (175164 / 1000 :: rat)"
    by simp
  show ?thesis
    unfolding getTotals_unfolded Let_def subtotal_run ship tax total toFixed2_examples ..
qed

lemma init_shipping_value:
  "get_value (cartForm init) ''shippingMethod'' = Some (JStr ''standard'')"
  by (simp add: init_forms get_value_def get_control_def fb_group_def fb_control_def)

lemma getTotals_init:
  "getTotals init =
     \<lparr>t_subtotal = Fixed ''139.98'', t_shipping = Fixed ''5.99'',
      t_tax = Fixed ''29.19'', t_total = Fixed ''175.16''\<rparr>"
  using getTotals_standard [of "[]"] by (simp add: run_Nil init_shipping_value)

text \<open>
  Claim C3, as the code has it, on the sessions reachable from the initial one (where
  the cart, the shipping methods and the tax rate are the constants of the class). The
  subtotal is the sum of price times quantity over the cart items, the shipping cost
  is the price of the shipping method whose identifier is selected, the tax is
  subtotal plus shipping cost times the tax rate, the total is subtotal plus shipping
  cost plus tax, and each of the four is rounded to two decimals only when it is
  printed. The cart holds 99.99 and 39.99, one of each, and the rate is 0.2; with
  standard shipping (5.99) selected the figures are 139.98, 5.99, 29.19 and 175.16.
\<close>

theorem getTotals_formula:
  assumes "s = run es init"
  shows "getTotals s =
     (let subtotal = (\<Sum>item\<leftarrow>cartItems s. price item * quantity item);
          shippingCost =
            (case find (\<lambda>m. get_value (cartForm s) ''shippingMethod'' = Some (JStr (sm_id m)))
                    (shippingMethods s) of
               None \<Rightarrow> 0
             | Some m \<Rightarrow> sm_price m);
          tax = (subtotal + shippingCost) * taxRate s;
          total = subtotal + shippingCost + tax
      in \<lparr>t_subtotal = toFixed2 subtotal, t_shipping = toFixed2 shippingCost,
          t_tax = toFixed2 tax, t_total = toFixed2 total\<rparr>)
   \<and> map (\<lambda>item. (price item, quantity item)) (cartItems s)
       = [(9999 / 100, 1), (3999 / 100, 1)]
   \<and> map (\<lambda>m. (sm_id m, sm_price m)) (shippingMethods s)
       = [(''standard'', 599 / 100), (''express'', 1499 / 100), (''overnight'', 2999 / 100)]
   \<and> taxRate s = 2 / 10
   \<and> (get_value (cartForm s) ''shippingMethod'' = Some (JStr ''standard'') \<longrightarrow>
        getTotals s =
          \<lparr>t_subtotal = Fixed ''139.98'', t_shipping = Fixed ''5.99'',
           t_tax = Fixed ''29.19'', t_total = Fixed ''175.16''\<rparr>)"
proof (intro conjI impI)
  show "map (\<lambda>item. (price item, quantity item)) (cartItems s)
       = [(9999 / 100, 1), (3999 / 100, 1)]"
    by (simp add: assms constants_run initial_cartItems_def)
  show "map (\<lambda>m. (sm_id m, sm_price m)) (shippingMethods s)
       = [(''standard'', 599 / 100), (''express'', 1499 / 100), (''overnight'', 2999 / 100)]"
    by (simp add: assms constants_run initial_shippingMethods_def)
  show "taxRate s = 2 / 10"
    by (simp add: assms constants_run)
  show "getTotals s =
          \<lparr>t_subtotal = Fixed ''139.98'', t_shipping = Fixed ''5.99'',
           t_tax = Fixed ''29.19'', t_total = Fixed ''175.16''\<rparr>"
    if "get_value (cartForm s) ''shippingMethod'' = Some (JStr ''standard'')"
    using that unfolding assms by (rule getTotals_standard)
qed (rule getTotals_unfolded)

text \<open>
  C3 at the initial session, where standard shipping is selected.
\<close>

theorem getTotals_formula_witness:
  "getTotals init =
     \<lparr>t_subtotal = Fixed ''139.98'', t_shipping = Fixed ''5.99'',
      t_tax = Fixed ''29.19'', t_total = Fixed ''175.16''\<rparr>"
proof -
  have "init = run [] init"
    by (simp add: run_Nil)
  from getTotals_formula [OF this] init_shipping_value show ?thesis
    by blast
qed

text \<open>
  Claim C3 as stated gives 174.97 for the total of that cart; the code prints 175.16.
\<close>

theorem getTotals_total_counterexample:
  "t_tax (getTotals init) = Fixed ''29.19''
   \<and> t_total (getTotals init) = Fixed ''175.16''
   \<and> t_total (getTotals init) \<noteq> Fixed ''174.97''"
  by (simp add: getTotals_init)

lemma getTotals_no_match:
  assumes "\<forall>m \<in> set (shippingMethods s).
      get_value (cartForm s) ''shippingMethod'' \<noteq> Some (JStr (sm_id m))"
  shows "getTotals s =
     (let subtotal = (\<Sum>item\<leftarrow>cartItems s. price item * quantity item);
          tax = subtotal * taxRate s
      in \<lparr>t_subtotal = toFixed2 subtotal, t_shipping = Fixed ''0.00'',
          t_tax = toFixed2 tax, t_total = toFixed2 (subtotal + tax)\<rparr>)"
proof -
  have "find (\<lambda>m. get_value (cartForm s) ''shippingMethod'' = Some (JStr (sm_id m)))
      (shippingMethods s) = None"
    using assms by (simp add: find_None_iff)
  then show ?thesis
    by (simp add: getTotals_unfolded Let_def toFixed2_zero)
qed

text \<open>
  Claim C10. In a reachable session whose selected shipping method is none of
  \<^verbatim>\<open>standard\<close>, \<^verbatim>\<open>express\<close>, \<^verbatim>\<open>overnight\<close> (a \<^verbatim>\<open>null\<close> value and a missing
  control included), \<^verbatim>\<open>getTotals\<close> still returns the four figures, with a shipping
  cost of 0: 139.98, 0.00, 28.00 and 167.98.
\<close>

theorem getTotals_unknown_shipping:
  assumes "s = run es init"
    and "get_value (cartForm s) ''shippingMethod''
      \<notin> {Some (JStr ''standard''), Some (JStr ''express''), Some (JStr ''overnight'')}"
  shows "getTotals s =
     (let subtotal = (\<Sum>item\<leftarrow>cartItems s. price item * quantity item);
          tax = subtotal * taxRate s
      in \<lparr>t_subtotal = toFixed2 subtotal, t_shipping = Fixed ''0.00'',
          t_tax = toFixed2 tax, t_total = toFixed2 (subtotal + tax)\<rparr>)
   \<and> getTotals s =
       \<lparr>t_subtotal = Fixed ''139.98'', t_shipping = Fixed ''0.00'',
        t_tax = Fixed ''28.00'', t_total = Fixed ''167.98''\<rparr>"
proof -
  have formula: "getTotals s =
     (let subtotal = (\<Sum>item\<leftarrow>cartItems s. price item * quantity item);
          tax = subtotal * taxRate s
      in \<lparr>t_subtotal = toFixed2 subtotal, t_shipping = Fixed ''0.00'',
          t_tax = toFixed2 tax, t_total = toFixed2 (subtotal + tax)\<rparr>)"
    using assms
    by (intro getTotals_no_match) (auto simp add: constants_run initial_shippingMethods_def)
  have tax: "13998 / 100 * taxRate (run es init) = 27996 / 1000"
    by (simp add: constants_run)
  have total: "13998 / 100 + 27996 / 1000 = (167976 / 1000 :: rat)"
    by simp
  have "getTotals s =
       \<lparr>t_subtotal = Fixed ''139.98'', t_shipping = Fixed ''0.00'',
        t_tax = Fixed ''28.00'', t_total = Fixed ''167.98''\<rparr>"
    using formula unfolding assms(1) Let_def subtotal_run tax total toFixed2_examples .
  with formula show ?thesis by simp
qed

text \<open>
  C10 for a \<^verbatim>\<open>null\<close> selection and for an unknown identifier.
\<close>

theorem getTotals_unknown_shipping_witness:
  "getTotals (run [Edit CartRef ''shippingMethod'' JNull] init) =
     \<lparr>t_subtotal = Fixed ''139.98'', t_shipping = Fixed ''0.00'',
      t_tax = Fixed ''28.00'', t_total = Fixed ''167.98''\<rparr>
   \<and> getTotals (run [NextStep, Edit CartRef ''shippingMethod'' (JStr ''pickup'')] init) =
     \<lparr>t_subtotal = Fixed ''139.98'', t_shipping = Fixed ''0.00'',
      t_tax = Fixed ''28.00'', t_total = Fixed ''167.98''\<rparr>"
proof -
  let ?a = "[Edit CartRef ''shippingMethod'' JNull]"
  let ?b = "[NextStep, Edit CartRef ''shippingMethod'' (JStr ''pickup'')]"
  have next1: "nextStep init = init\<lparr>currentStep := 2\<rparr>"
    by (simp add: nextStep_def getCurrentForm_def init_fields init_valid)
  have va: "get_value (cartForm (run ?a init)) ''shippingMethod'' = Some JNull"
    by (simp add: run_Cons run_Nil init_forms setValue_def get_value_def get_control_def
        fb_group_def fb_control_def)
  have vb: "get_value (cartForm (run ?b init)) ''shippingMethod'' = Some (JStr ''pickup'')"
    by (simp add: run_Cons run_Nil next1 init_forms setValue_def get_value_def get_control_def
        fb_group_def fb_control_def)
  have ha: "get_value (cartForm (run ?a init)) ''shippingMethod''
      \<notin> {Some (JStr ''standard''), Some (JStr ''express''), Some (JStr ''overnight'')}"
    by (simp add: va)
  have hb: "get_value (cartForm (run ?b init)) ''shippingMethod''
      \<notin> {Some (JStr ''standard''), Some (JStr ''express''), Some (JStr ''overnight'')}"
    by (simp add: vb)
  from getTotals_unknown_shipping [OF refl ha, THEN conjunct2]
    getTotals_unknown_shipping [OF refl hb, THEN conjunct2]
  show ?thesis
    by (rule conjI)
qed

section \<open>The payment step\<close>

lemma payment_valid_iff:
  assumes tab: "validators_of f =
     [(''paymentMethod'', [Required]), (''cardName'', [Required, MinLength 5]),
      (''cardNumber'', [Required, Pattern (DigitsRe 16 16)]),
      (''expiryDate'', [Required, Pattern ExpiryRe]),
      (''cvv'', [Required, Pattern (DigitsRe 3 4)]), (''billingAddress'', [])]"
    and vals: "get_value f ''paymentMethod'' = Some (JStr pm)"
      "get_value f ''cardName'' = Some (JStr nm)"
      "get_value f ''cardNumber'' = Some (JStr num)"
      "get_value f ''expiryDate'' = Some (JStr ex)"
      "get_value f ''cvv'' = Some (JStr cv)"
  shows "group_valid f \<longleftrightarrow>
    pm \<noteq> [] \<and> 5 \<le> length nm
    \<and> (length num = 16 \<and> list_all is_digit num)
    \<and> regexp_test ExpiryRe ex
    \<and> (3 \<le> length cv \<and> length cv \<le> 4 \<and> list_all is_digit cv)"
proof -
  from tab obtain c1 c2 c3 c4 c5 c6 where
    cs: "controls f = [(''paymentMethod'', c1), (''cardName'', c2), (''cardNumber'', c3),
        (''expiryDate'', c4), (''cvv'', c5), (''billingAddress'', c6)]"
    and v: "c_validators c1 = [Required]" "c_validators c2 = [Required, MinLength 5]"
      "c_validators c3 = [Required, Pattern (DigitsRe 16 16)]"
      "c_validators c4 = [Required, Pattern ExpiryRe]"
      "c_validators c5 = [Required, Pattern (DigitsRe 3 4)]" "c_validators c6 = []"
    by (auto simp add: validators_of_def map_eq_Cons_conv)
  from vals have w: "c_value c1 = JStr pm" "c_value c2 = JStr nm" "c_value c3 = JStr num"
    "c_value c4 = JStr ex" "c_value c5 = JStr cv"
    by (simp_all add: get_value_def get_control_def cs)
  have "ex \<noteq> []" if "regexp_test ExpiryRe ex"
    using that by auto
  then show ?thesis
    by (auto simp add: group_valid_def control_valid_def cs v w simp del: regexp_test.simps(3))
qed

lemma init_payment_form:
  "paymentForm init = fb_group
     [(''paymentMethod'', fb_control (JStr ''card'') [Required]),
      (''cardName'', fb_control (JStr ''Jean Dupont'') [Required, MinLength 5]),
      (''cardNumber'', fb_control (JStr ''4111111111111111'') [Required, Pattern (DigitsRe 16 16)]),
      (''expiryDate'', fb_control (JStr ''12/25'') [Required, Pattern ExpiryRe]),
      (''cvv'', fb_control (JStr ''123'') [Required, Pattern (DigitsRe 3 4)]),
      (''billingAddress'', fb_control (JBool True) [])]"
  by (simp add: init_def ngOnInit_def initializeForms_def new_component_def)

lemma paypal_session:
  "run [NextStep, NextStep,
        Edit PaymentRef ''paymentMethod'' (JStr ''paypal''),
        Edit PaymentRef ''cardNumber'' (JStr '''')] init
   = init\<lparr>currentStep := 3,
          paymentForm := fb_group
            [(''paymentMethod'', fb_control (JStr ''paypal'') [Required]),
             (''cardName'', fb_control (JStr ''Jean Dupont'') [Required, MinLength 5]),
             (''cardNumber'', fb_control (JStr '''') [Required, Pattern (DigitsRe 16 16)]),
             (''expiryDate'', fb_control (JStr ''12/25'') [Required, Pattern ExpiryRe]),
             (''cvv'', fb_control (JStr ''123'') [Required, Pattern (DigitsRe 3 4)]),
             (''billingAddress'', fb_control (JBool True) [])]\<rparr>"
proof -
  have "run ([NextStep, NextStep] @
        [Edit PaymentRef ''paymentMethod'' (JStr ''paypal''),
         Edit PaymentRef ''cardNumber'' (JStr '''')]) init
   = init\<lparr>currentStep := 3,
          paymentForm := fb_group
            [(''paymentMethod'', fb_control (JStr ''paypal'') [Required]),
             (''cardName'', fb_control (JStr ''Jean Dupont'') [Required, MinLength 5]),
             (''cardNumber'', fb_control (JStr '''') [Required, Pattern (DigitsRe 16 16)]),
             (''expiryDate'', fb_control (JStr ''12/25'') [Required, Pattern ExpiryRe]),
             (''cvv'', fb_control (JStr ''123'') [Required, Pattern (DigitsRe 3 4)]),
             (''billingAddress'', fb_control (JBool True) [])]\<rparr>"
    unfolding run_append run_next2
    by (simp add: run_Cons run_Nil init_payment_form setValue_def fb_group_def fb_control_def)
  then show ?thesis by simp
qed

text \<open>
  Claim C2, as the code has it. The validators of the payment form do not look at the
  payment method: in a reachable session whose payment fields hold strings, the form is
  valid exactly when the method is non-empty and the card fields satisfy their rules
  (name of at least 5 characters, number of exactly 16 digits, expiry \<^verbatim>\<open>MM/YY\<close> with a
  month from 01 to 12, CVV of 3 or 4 digits), whatever the method is.
\<close>

theorem payment_rules_unconditional:
  assumes "s = run es init"
    and "get_value (paymentForm s) ''paymentMethod'' = Some (JStr pm)"
    and "get_value (paymentForm s) ''cardName'' = Some (JStr nm)"
    and "get_value (paymentForm s) ''cardNumber'' = Some (JStr num)"
    and "get_value (paymentForm s) ''expiryDate'' = Some (JStr ex)"
    and "get_value (paymentForm s) ''cvv'' = Some (JStr cv)"
  shows "group_valid (paymentForm s) \<longleftrightarrow>
    pm \<noteq> [] \<and> 5 \<le> length nm
    \<and> (length num = 16 \<and> list_all is_digit num)
    \<and> regexp_test ExpiryRe ex
    \<and> (3 \<le> length cv \<and> length cv \<le> 4 \<and> list_all is_digit cv)"
proof -
  have "session_inv s"
    using assms(1) by (simp add: session_inv_run)
  then have "validators_of (paymentForm s) =
     [(''paymentMethod'', [Required]), (''cardName'', [Required, MinLength 5]),
      (''cardNumber'', [Required, Pattern (DigitsRe 16 16)]),
      (''expiryDate'', [Required, Pattern ExpiryRe]),
      (''cvv'', [Required, Pattern (DigitsRe 3 4)]), (''billingAddress'', [])]"
    by (simp add: session_inv_def validators_of_init)
  then show ?thesis
    using assms(2-) by (rule payment_valid_iff)
qed

text \<open>
  C2 at the initial session (card, valid) and after selecting PayPal and clearing the
  card number (invalid).
\<close>

theorem payment_rules_unconditional_witness:
  "group_valid (paymentForm init)
   \<and> \<not> group_valid (paymentForm (run [NextStep, NextStep,
        Edit PaymentRef ''paymentMethod'' (JStr ''paypal''),
        Edit PaymentRef ''cardNumber'' (JStr '''')] init))"
proof -
  let ?es = "[NextStep, NextStep,
        Edit PaymentRef ''paymentMethod'' (JStr ''paypal''),
        Edit PaymentRef ''cardNumber'' (JStr '''')]"
  have a: "group_valid (paymentForm init)"
    using payment_rules_unconditional [of init "[]" "''card''" "''Jean Dupont''"
        "''4111111111111111''" "''12/25''" "''123''"]
    by (simp add: run_Nil init_payment_form get_value_def get_control_def fb_group_def
        fb_control_def is_digit_def)
  have b: "\<not> group_valid (paymentForm (run ?es init))"
    using payment_rules_unconditional [of "run ?es init" ?es "''paypal''" "''Jean Dupont''"
        "''''" "''12/25''" "''123''"]
    by (simp add: paypal_session get_value_def get_control_def fb_group_def fb_control_def)
  from a b show ?thesis by simp
qed

text \<open>
  Claim C2 as stated fails: with \<^verbatim>\<open>paypal\<close> selected and the card number cleared the
  payment form is invalid, step 3 is not completed and \<^verbatim>\<open>nextStep\<close> stays at
  position 3.
\<close>

theorem paypal_counterexample:
  "get_value (paymentForm (run [NextStep, NextStep,
        Edit PaymentRef ''paymentMethod'' (JStr ''paypal''),
        Edit PaymentRef ''cardNumber'' (JStr '''')] init)) ''paymentMethod''
     = Some (JStr ''paypal'')
   \<and> \<not> group_valid (paymentForm (run [NextStep, NextStep,
        Edit PaymentRef ''paymentMethod'' (JStr ''paypal''),
        Edit PaymentRef ''cardNumber'' (JStr '''')] init))
   \<and> \<not> isStepCompleted (run [NextStep, NextStep,
        Edit PaymentRef ''paymentMethod'' (JStr ''paypal''),
        Edit PaymentRef ''cardNumber'' (JStr '''')] init) 3
   \<and> currentStep (nextStep (run [NextStep, NextStep,
        Edit PaymentRef ''paymentMethod'' (JStr ''paypal''),
        Edit PaymentRef ''cardNumber'' (JStr '''')] init)) = 3"
  unfolding paypal_session
  by (simp add: get_value_def get_control_def fb_group_def fb_control_def group_valid_def
      control_valid_def isStepCompleted_def getFormAtStep_def nextStep_def getCurrentForm_def
      update_form_fields)

section \<open>When an order exists\<close>

lemma orderData_markFormTouched: "orderData (markFormTouched c s) = orderData s"
  by (cases c) (simp_all add: update_form_fields)

lemma orderData_nextStep: "orderData (nextStep s) = orderData s"
  by (simp add: nextStep_def Let_def orderData_markFormTouched)

lemma orderData_apply_event:
  "orderData (apply_event e s) \<noteq> None \<longleftrightarrow>
     orderData s \<noteq> None
     \<or> (\<exists>now today. e = PlaceOrder now today \<and> group_valid (confirmationForm s))"
  by (cases e)
    (simp_all add: orderData_nextStep previousStep_def placeOrder_def update_form_fields)

lemma placed_snoc:
  "(\<exists>es1 now today es2. es @ [e] = es1 @ PlaceOrder now today # es2 \<and> P es1) \<longleftrightarrow>
     (\<exists>es1 now today es2. es = es1 @ PlaceOrder now today # es2 \<and> P es1)
     \<or> (\<exists>now today. e = PlaceOrder now today \<and> P es)"
  (is "?L \<longleftrightarrow> ?A \<or> ?B")
proof
  assume ?L
  then obtain es1 now today es2
    where eq: "es @ [e] = es1 @ PlaceOrder now today # es2" and p: "P es1"
    by blast
  show "?A \<or> ?B"
  proof (cases es2 rule: rev_cases)
    case Nil
    with eq have "es = es1" "e = PlaceOrder now today" by simp_all
    with p show ?thesis by blast
  next
    case (snoc es2' x)
    with eq have "es @ [e] = (es1 @ PlaceOrder now today # es2') @ [x]" by simp
    then have "es = es1 @ PlaceOrder now today # es2'" by (simp only: append1_eq_conv)
    with p show ?thesis by blast
  qed
next
  assume "?A \<or> ?B"
  then show ?L
  proof
    assume ?A
    then obtain es1 now today es2
      where "es = es1 @ PlaceOrder now today # es2" and p: "P es1"
      by blast
    then have "es @ [e] = es1 @ PlaceOrder now today # (es2 @ [e])" by simp
    with p show ?L by blast
  next
    assume ?B
    then obtain now today where "e = PlaceOrder now today" and p: "P es" by blast
    then have "es @ [e] = es @ PlaceOrder now today # []" by simp
    with p show ?L by blast
  qed
qed

text \<open>
  Claim C4, as the code has it. In a session reached by the events \<open>es\<close> an order exists
  exactly when some \<^verbatim>\<open>placeOrder\<close> among them was called while the confirmation form
  was valid. The position plays no part: \<^verbatim>\<open>placeOrder\<close> does not read it and no
  method clears \<^verbatim>\<open>orderData\<close>.
\<close>

theorem orderData_iff_placed:
  "orderData (run es init) \<noteq> None \<longleftrightarrow>
     (\<exists>es1 now today es2. es = es1 @ PlaceOrder now today # es2
        \<and> group_valid (confirmationForm (run es1 init)))"
proof (induction es rule: rev_induct)
  case Nil
  show ?case by (simp add: run_Nil init_fields)
next
  case (snoc e es)
  have "orderData (run (es @ [e]) init) \<noteq> None \<longleftrightarrow>
      orderData (run es init) \<noteq> None
      \<or> (\<exists>now today. e = PlaceOrder now today \<and> group_valid (confirmationForm (run es init)))"
    by (simp only: run_snoc orderData_apply_event)
  also have "\<dots> \<longleftrightarrow>
      (\<exists>es1 now today es2. es = es1 @ PlaceOrder now today # es2
        \<and> group_valid (confirmationForm (run es1 init)))
      \<or> (\<exists>now today. e = PlaceOrder now today \<and> group_valid (confirmationForm (run es init)))"
    by (simp only: snoc.IH)
  also have "\<dots> \<longleftrightarrow>
      (\<exists>es1 now today es2. es @ [e] = es1 @ PlaceOrder now today # es2
        \<and> group_valid (confirmationForm (run es1 init)))"
    by (rule placed_snoc [where P = "\<lambda>es1. group_valid (confirmationForm (run es1 init))",
          symmetric])
  finally show ?case .
qed

text \<open>
  Claim C4 as stated fails: going back after the order is placed leaves an order at
  position 3, and \<^verbatim>\<open>placeOrder\<close> called at position 3, once both boxes are ticked,
  creates one there.
\<close>

theorem order_below_last_step_counterexample:
  "orderData (run [NextStep, NextStep, NextStep,
        Edit ConfirmationRef ''acceptTerms'' (JBool True),
        Edit ConfirmationRef ''acceptPrivacy'' (JBool True),
        PlaceOrder 1 ''01/01/2026'', PreviousStep] init) \<noteq> None
   \<and> currentStep (run [NextStep, NextStep, NextStep,
        Edit ConfirmationRef ''acceptTerms'' (JBool True),
        Edit ConfirmationRef ''acceptPrivacy'' (JBool True),
        PlaceOrder 1 ''01/01/2026'', PreviousStep] init) = 3
   \<and> orderData (run [NextStep, NextStep, NextStep,
        Edit ConfirmationRef ''acceptTerms'' (JBool True),
        Edit ConfirmationRef ''acceptPrivacy'' (JBool True),
        PreviousStep] init) = None
   \<and> currentStep (run [NextStep, NextStep, NextStep,
        Edit ConfirmationRef ''acceptTerms'' (JBool True),
        Edit ConfirmationRef ''acceptPrivacy'' (JBool True),
        PreviousStep] init) = 3
   \<and> orderData (run [NextStep, NextStep, NextStep,
        Edit ConfirmationRef ''acceptTerms'' (JBool True),
        Edit ConfirmationRef ''acceptPrivacy'' (JBool True),
        PreviousStep, PlaceOrder 1 ''01/01/2026''] init) \<noteq> None"
proof -
  let ?es = "[NextStep, NextStep, NextStep,
        Edit ConfirmationRef ''acceptTerms'' (JBool True),
        Edit ConfirmationRef ''acceptPrivacy'' (JBool True)]"
  have valid: "group_valid (confirmationForm (run ?es init))"
    by (simp add: confirmed_session group_valid_def control_valid_def fb_group_def fb_control_def)
  have step: "currentStep (run ?es init) = 4" and none: "orderData (run ?es init) = None"
    by (simp_all add: confirmed_session init_fields)
  have a: "run (?es @ [PlaceOrder 1 ''01/01/2026'', PreviousStep]) init
      = previousStep (placeOrder 1 ''01/01/2026'' (run ?es init))"
    and b: "run (?es @ [PreviousStep]) init = previousStep (run ?es init)"
    and c: "run (?es @ [PreviousStep, PlaceOrder 1 ''01/01/2026'']) init
      = placeOrder 1 ''01/01/2026'' (previousStep (run ?es init))"
    by (simp_all only: run_append run_Cons run_Nil apply_event.simps)
  have "orderData (previousStep (placeOrder 1 ''01/01/2026'' (run ?es init))) \<noteq> None"
    "currentStep (previousStep (placeOrder 1 ''01/01/2026'' (run ?es init))) = 3"
    "orderData (previousStep (run ?es init)) = None"
    "currentStep (previousStep (run ?es init)) = 3"
    "orderData (placeOrder 1 ''01/01/2026'' (previousStep (run ?es init))) \<noteq> None"
    using valid step none by (simp_all add: previousStep_def placeOrder_def)
  then show ?thesis
    using a b c by simp
qed

end
